theory Spec2Isabelle
  imports Main
begin

section \<open>Exceptions and text\<close>

text \<open>
  The exceptions the backend raises, each carrying its message. \<open>OtherError\<close> stands for
  any other \<open>Error\<close> object (a failure of the Prisma client, a \<open>TypeError\<close>);
  \<open>NonErrorValue\<close> for a thrown value that is not an \<open>Error\<close>.
\<close>

datatype exception =
    NotFoundException string
  | ForbiddenException string
  | ConflictException string
  | UnauthorizedException string
  | OtherError string
  | NonErrorValue

text \<open>\<open>error instanceof Error ? error.message : 'Unknown error'\<close>\<close>

fun error_message :: "exception \<Rightarrow> string" where
  "error_message (NotFoundException m) = m"
| "error_message (ForbiddenException m) = m"
| "error_message (ConflictException m) = m"
| "error_message (UnauthorizedException m) = m"
| "error_message (OtherError m) = m"
| "error_message NonErrorValue = ''Unknown error''"

text \<open>
  The messages are French; a letter outside ASCII is written as its UTF-8 bytes.
\<close>

definition e_acute :: string where
  "e_acute = [CHR 0xC3, CHR 0xA9]"

definition E_acute :: string where
  "E_acute = [CHR 0xC3, CHR 0x89]"

definition e_grave :: string where
  "e_grave = [CHR 0xC3, CHR 0xA8]"

definition a_grave :: string where
  "a_grave = [CHR 0xC3, CHR 0xA0]"

text \<open>
  The text of a number in a template literal (\<open>Number::toString\<close>). The model takes a
  number for the exact integer it holds; a JavaScript number is a double, which holds
  every integer of magnitude up to \<open>2^53\<close>. An integer of at most 21 digits prints
  all its digits; a longer one prints in exponent form, its digits without the trailing
  zeros, a point after the first, then \<open>e+\<close> and the exponent.
\<close>

definition digit_char :: "nat \<Rightarrow> char" where
  "digit_char n = ''0123456789'' ! n"

function string_of_nat :: "nat \<Rightarrow> string" where
  "string_of_nat n =
     (if n < 10 then [digit_char n] else string_of_nat (n div 10) @ [digit_char (n mod 10)])"
  by pat_completeness auto
termination
  by (relation "measure id") auto

declare string_of_nat.simps [simp del]

definition strip_trailing_zeros :: "string \<Rightarrow> string" where
  "strip_trailing_zeros ds = rev (dropWhile (\<lambda>c. c = CHR ''0'') (rev ds))"

definition exponent_form :: "string \<Rightarrow> string" where
  "exponent_form ds =
     (case strip_trailing_zeros ds of
        [] \<Rightarrow> ds
      | d # rest \<Rightarrow>
          (d # (if rest = [] then [] else CHR ''.'' # rest))
            @ ''e+'' @ string_of_nat (length ds - 1))"

definition Number_toString_nat :: "nat \<Rightarrow> string" where
  "Number_toString_nat n =
     (let ds = string_of_nat n in if length ds \<le> 21 then ds else exponent_form ds)"

definition string_of_int :: "int \<Rightarrow> string" where
  "string_of_int i =
     (if i < 0 then CHR ''-'' # Number_toString_nat (nat (- i)) else Number_toString_nat (nat i))"

text \<open>A JavaScript string is truthy iff it is not empty.\<close>

definition truthy :: "string \<Rightarrow> bool" where
  "truthy s = (s \<noteq> [])"

section \<open>Roles and the principal\<close>

text \<open>\<open>shared/enums/role.enum.ts\<close>\<close>

datatype Role = ADMIN | SECRETARY | INSTRUCTOR | STUDENT

text \<open>\<open>CurrentUserData\<close>: what \<open>JwtStrategy.validate\<close> puts in \<open>req.user\<close>.\<close>

record CurrentUserData =
  cu_userId :: string
  cu_email :: string
  cu_tenantId :: string
  cu_role :: Role

text \<open>The \<open>User\<close> table.\<close>

record User =
  user_id :: string
  user_email :: string
  user_password :: string
  user_role :: Role
  user_tenantId :: string

text \<open>\<open>select: { id, email, role, tenantId }\<close>\<close>

record UserIdEmailRoleTenant =
  sel_id :: string
  sel_email :: string
  sel_role :: Role
  sel_tenantId :: string

text \<open>\<open>prisma.user.findUnique({ where: { id } })\<close>\<close>

definition user_findUnique_id :: "string \<Rightarrow> User list \<Rightarrow> User option" where
  "user_findUnique_id uid us = find (\<lambda>u. user_id u = uid) us"

text \<open>\<open>AuthService.validateUser\<close>\<close>

definition validateUser :: "User list \<Rightarrow> string \<Rightarrow> UserIdEmailRoleTenant option" where
  "validateUser us uid =
     map_option (\<lambda>u. \<lparr>sel_id = user_id u, sel_email = user_email u,
                       sel_role = user_role u, sel_tenantId = user_tenantId u\<rparr>)
       (user_findUnique_id uid us)"

text \<open>\<open>JwtPayload\<close>: the decoded claims of a token.\<close>

record JwtPayload =
  jwt_sub :: string
  jwt_tenantId :: string
  jwt_role :: string
  jwt_iat :: "nat option"
  jwt_exp :: "nat option"

text \<open>\<open>JwtStrategy.validate\<close>\<close>

definition validate :: "User list \<Rightarrow> JwtPayload \<Rightarrow> exception + CurrentUserData" where
  "validate us payload =
     (case validateUser us (jwt_sub payload) of
        None \<Rightarrow> Inl (UnauthorizedException (''Utilisateur invalide ou supprim'' @ e_acute))
      | Some user \<Rightarrow>
          Inr \<lparr>cu_userId = sel_id user, cu_email = sel_email user,
               cu_tenantId = sel_tenantId user, cu_role = sel_role user\<rparr>)"

section \<open>Guards\<close>

text \<open>
  The request as the guards see it: the bearer token of the \<open>Authorization\<close> header and
  \<open>req.user\<close>. The execution context adds the \<open>@Roles\<close> metadata of the handler and of
  its class; \<open>None\<close> is a target without the decorator (\<open>undefined\<close>).
\<close>

record Request =
  req_bearer :: "string option"
  req_user :: "CurrentUserData option"

record ExecutionContext =
  ctx_handler_roles :: "Role list option"
  ctx_class_roles :: "Role list option"
  ctx_request :: Request

text \<open>
  \<open>Reflector.getAllAndOverride\<close> of the framework: the metadata of the first target that
  defines it.
\<close>

fun getAllAndOverride :: "'a option list \<Rightarrow> 'a option" where
  "getAllAndOverride [] = None"
| "getAllAndOverride (Some r # ts) = Some r"
| "getAllAndOverride (None # ts) = getAllAndOverride ts"

text \<open>
  \<open>requiredRoles.some((role) => user.role === role)\<close>: the callback reads \<open>user.role\<close>, a
  \<open>TypeError\<close> when \<open>req.user\<close> is undefined; on the empty array it is never called.
\<close>

fun some_role :: "CurrentUserData option \<Rightarrow> Role list \<Rightarrow> exception + bool" where
  "some_role user [] = Inr False"
| "some_role None (r # rs) =
     Inl (OtherError ''Cannot read properties of undefined (reading 'role')'')"
| "some_role (Some u) (r # rs) = (if cu_role u = r then Inr True else some_role (Some u) rs)"

text \<open>\<open>RolesGuard.canActivate\<close>\<close>

definition RolesGuard_canActivate :: "ExecutionContext \<Rightarrow> exception + bool" where
  "RolesGuard_canActivate context =
     (case getAllAndOverride [ctx_handler_roles context, ctx_class_roles context] of
        None \<Rightarrow> Inr True
      | Some requiredRoles \<Rightarrow> some_role (req_user (ctx_request context)) requiredRoles)"

text \<open>\<open>TenantGuard.canActivate\<close>: \<open>!!(user && user.tenantId)\<close>\<close>

definition TenantGuard_canActivate :: "ExecutionContext \<Rightarrow> bool" where
  "TenantGuard_canActivate context =
     (case req_user (ctx_request context) of
        None \<Rightarrow> False
      | Some user \<Rightarrow> truthy (cu_tenantId user))"

text \<open>
  \<open>JwtAuthGuard\<close> (\<open>AuthGuard('jwt')\<close>). Passport extracts the bearer token and verifies
  its signature and expiry against the secret; that library step is the parameter
  \<open>verify\<close>, which gives the decoded payload of a token it accepts. Then
  \<open>JwtStrategy.validate\<close> runs and its result becomes \<open>req.user\<close>. Every failure is an
  \<open>UnauthorizedException\<close>.
\<close>

definition JwtAuthGuard_canActivate ::
  "(string \<Rightarrow> JwtPayload option) \<Rightarrow> User list \<Rightarrow> ExecutionContext
     \<Rightarrow> exception + (bool \<times> ExecutionContext)" where
  "JwtAuthGuard_canActivate verify us context =
     (case req_bearer (ctx_request context) of
        None \<Rightarrow> Inl (UnauthorizedException ''Unauthorized'')
      | Some token \<Rightarrow>
          (case verify token of
             None \<Rightarrow> Inl (UnauthorizedException ''Unauthorized'')
           | Some payload \<Rightarrow>
               (case validate us payload of
                  Inl e \<Rightarrow> Inl e
                | Inr user \<Rightarrow>
                    Inr (True, context\<lparr>ctx_request := (ctx_request context)\<lparr>req_user := Some user\<rparr>\<rparr>))))"

datatype guard = JwtAuthGuard | TenantGuard | RolesGuard

fun canActivate ::
  "(string \<Rightarrow> JwtPayload option) \<Rightarrow> User list \<Rightarrow> guard \<Rightarrow> ExecutionContext
     \<Rightarrow> exception + (bool \<times> ExecutionContext)" where
  "canActivate verify us JwtAuthGuard context = JwtAuthGuard_canActivate verify us context"
| "canActivate verify us TenantGuard context = Inr (TenantGuard_canActivate context, context)"
| "canActivate verify us RolesGuard context =
     (case RolesGuard_canActivate context of
        Inl e \<Rightarrow> Inl e
      | Inr b \<Rightarrow> Inr (b, context))"

text \<open>
  The framework runs the guards of \<open>@UseGuards(...)\<close> in the order written and stops at
  the first one that throws or returns false; false becomes
  \<open>ForbiddenException('Forbidden resource')\<close>. The second component is the list of the
  guards that ran, in order.
\<close>

fun tryActivate ::
  "(string \<Rightarrow> JwtPayload option) \<Rightarrow> User list \<Rightarrow> guard list \<Rightarrow> ExecutionContext
     \<Rightarrow> (exception + ExecutionContext) \<times> guard list" where
  "tryActivate verify us [] context = (Inr context, [])"
| "tryActivate verify us (g # gs) context =
     (case canActivate verify us g context of
        Inl e \<Rightarrow> (Inl e, [g])
      | Inr (False, context') \<Rightarrow> (Inl (ForbiddenException ''Forbidden resource''), [g])
      | Inr (True, context') \<Rightarrow>
          (case tryActivate verify us gs context' of (r, trace) \<Rightarrow> (r, g # trace)))"

text \<open>
  \<open>StudentsController\<close>: \<open>@UseGuards(JwtAuthGuard, RolesGuard)\<close> and
  \<open>@Roles(Role.ADMIN, Role.SECRETARY)\<close> on the class, \<open>@Roles(Role.ADMIN)\<close> on
  \<open>remove\<close>.
\<close>

datatype StudentsRoute =
    Route_create | Route_findAll | Route_findOne | Route_update | Route_archive
  | Route_restore | Route_remove | Route_getHours | Route_addPurchasedHours
  | Route_addUsedHours

definition StudentsController_guards :: "guard list" where
  "StudentsController_guards = [JwtAuthGuard, RolesGuard]"

definition StudentsController_class_roles :: "Role list option" where
  "StudentsController_class_roles = Some [ADMIN, SECRETARY]"

fun StudentsController_handler_roles :: "StudentsRoute \<Rightarrow> Role list option" where
  "StudentsController_handler_roles Route_remove = Some [ADMIN]"
| "StudentsController_handler_roles _ = None"

definition StudentsController_context :: "StudentsRoute \<Rightarrow> Request \<Rightarrow> ExecutionContext" where
  "StudentsController_context route req =
     \<lparr>ctx_handler_roles = StudentsController_handler_roles route,
      ctx_class_roles = StudentsController_class_roles,
      ctx_request = req\<rparr>"

definition StudentsController_guard_chain ::
  "(string \<Rightarrow> JwtPayload option) \<Rightarrow> User list \<Rightarrow> StudentsRoute \<Rightarrow> Request
     \<Rightarrow> (exception + ExecutionContext) \<times> guard list" where
  "StudentsController_guard_chain verify us route req =
     tryActivate verify us StudentsController_guards (StudentsController_context route req)"

section \<open>The student table\<close>

datatype LicenseType = License_B | License_AAC | License_CS | License_A1 | License_A2

datatype StudentStatus =
    PROSPECT | ANTS_PROCESSING | ACTIVE | EXAM_READY | LICENSE_OBTAINED | ARCHIVED

text \<open>A \<open>Date\<close>, kept as the text it was built from.\<close>

datatype Date = Date string

text \<open>
  A row of the \<open>Student\<close> table, without the timestamps \<open>createdAt\<close> and
  \<open>updatedAt\<close> that the database maintains. The minute counters are \<open>INTEGER\<close>
  columns read into JavaScript numbers; the model takes them as unbounded integers.
\<close>

record Student =
  s_id :: string
  s_userId :: string
  s_tenantId :: string
  s_birthName :: string
  s_firstName :: string
  s_birthDate :: Date
  s_birthCity :: string
  s_birthZipCode :: "string option"
  s_birthCountry :: string
  s_address :: string
  s_city :: string
  s_zipCode :: string
  s_phone :: string
  s_neph :: "string option"
  s_ePhotoCode :: "string option"
  s_hasIdCard :: bool
  s_hasProofOfAddress :: bool
  s_hasAssr2 :: bool
  s_hasJdcCertificate :: bool
  s_hasCensusCertificate :: bool
  s_needsMedicalOpinion :: bool
  s_hasMedicalOpinion :: bool
  s_licenseType :: LicenseType
  s_status :: StudentStatus
  s_minutesPurchased :: int
  s_minutesUsed :: int
  s_guardianName :: "string option"
  s_guardianPhone :: "string option"
  s_guardianEmail :: "string option"
  s_guardianRelation :: "string option"
  s_archivedAt :: "Date option"

text \<open>
  \<open>UpdateStudentDto\<close>: \<open>PartialType(CreateStudentDto)\<close> with \<open>archivedAt\<close> added. Every
  property is optional (\<open>None\<close> is \<open>undefined\<close>); \<open>archivedAt\<close> may also be \<open>null\<close>
  (\<open>Some None\<close>). The validation pipe (\<open>whitelist\<close>, \<open>forbidNonWhitelisted\<close>) lets no
  other property through.
\<close>

record UpdateStudentDto =
  dto_birthName :: "string option"
  dto_firstName :: "string option"
  dto_birthDate :: "string option"
  dto_birthCity :: "string option"
  dto_birthZipCode :: "string option"
  dto_birthCountry :: "string option"
  dto_address :: "string option"
  dto_city :: "string option"
  dto_zipCode :: "string option"
  dto_phone :: "string option"
  dto_email :: "string option"
  dto_password :: "string option"
  dto_neph :: "string option"
  dto_ePhotoCode :: "string option"
  dto_hasIdCard :: "bool option"
  dto_hasProofOfAddress :: "bool option"
  dto_hasAssr2 :: "bool option"
  dto_hasJdcCertificate :: "bool option"
  dto_hasCensusCertificate :: "bool option"
  dto_needsMedicalOpinion :: "bool option"
  dto_hasMedicalOpinion :: "bool option"
  dto_licenseType :: "LicenseType option"
  dto_status :: "StudentStatus option"
  dto_minutesPurchased :: "int option"
  dto_guardianName :: "string option"
  dto_guardianPhone :: "string option"
  dto_guardianEmail :: "string option"
  dto_guardianRelation :: "string option"
  dto_archivedAt :: "string option option"

text \<open>
  \<open>Prisma.StudentUpdateInput\<close>: one optional entry per column; \<open>None\<close> leaves the
  column as it is. \<open>d_user\<close> and \<open>d_tenant\<close> re-link the row to another user or tenant.
\<close>

record StudentUpdateInput =
  d_id :: "string option"
  d_user :: "string option"
  d_tenant :: "string option"
  d_birthName :: "string option"
  d_firstName :: "string option"
  d_birthDate :: "Date option"
  d_birthCity :: "string option"
  d_birthZipCode :: "string option"
  d_birthCountry :: "string option"
  d_address :: "string option"
  d_city :: "string option"
  d_zipCode :: "string option"
  d_phone :: "string option"
  d_neph :: "string option"
  d_ePhotoCode :: "string option"
  d_hasIdCard :: "bool option"
  d_hasProofOfAddress :: "bool option"
  d_hasAssr2 :: "bool option"
  d_hasJdcCertificate :: "bool option"
  d_hasCensusCertificate :: "bool option"
  d_needsMedicalOpinion :: "bool option"
  d_hasMedicalOpinion :: "bool option"
  d_licenseType :: "LicenseType option"
  d_status :: "StudentStatus option"
  d_minutesPurchased :: "int option"
  d_minutesUsed :: "int option"
  d_guardianName :: "string option"
  d_guardianPhone :: "string option"
  d_guardianEmail :: "string option"
  d_guardianRelation :: "string option"
  d_archivedAt :: "Date option option"

definition no_change :: StudentUpdateInput where
  "no_change =
     \<lparr>d_id = None, d_user = None, d_tenant = None, d_birthName = None, d_firstName = None,
      d_birthDate = None, d_birthCity = None, d_birthZipCode = None, d_birthCountry = None,
      d_address = None, d_city = None, d_zipCode = None, d_phone = None, d_neph = None,
      d_ePhotoCode = None, d_hasIdCard = None, d_hasProofOfAddress = None, d_hasAssr2 = None,
      d_hasJdcCertificate = None, d_hasCensusCertificate = None,
      d_needsMedicalOpinion = None, d_hasMedicalOpinion = None, d_licenseType = None,
      d_status = None, d_minutesPurchased = None, d_minutesUsed = None,
      d_guardianName = None, d_guardianPhone = None, d_guardianEmail = None,
      d_guardianRelation = None, d_archivedAt = None\<rparr>"

text \<open>Writing one entry of the update input into a row.\<close>

fun set_column :: "'a option \<Rightarrow> ('a \<Rightarrow> Student \<Rightarrow> Student) \<Rightarrow> Student \<Rightarrow> Student" where
  "set_column None f s = s"
| "set_column (Some v) f s = f v s"

definition apply_data :: "StudentUpdateInput \<Rightarrow> Student \<Rightarrow> Student" where
  "apply_data d =
     set_column (d_archivedAt d) (\<lambda>v s. s\<lparr>s_archivedAt := v\<rparr>)
   \<circ> set_column (d_guardianRelation d) (\<lambda>v s. s\<lparr>s_guardianRelation := Some v\<rparr>)
   \<circ> set_column (d_guardianEmail d) (\<lambda>v s. s\<lparr>s_guardianEmail := Some v\<rparr>)
   \<circ> set_column (d_guardianPhone d) (\<lambda>v s. s\<lparr>s_guardianPhone := Some v\<rparr>)
   \<circ> set_column (d_guardianName d) (\<lambda>v s. s\<lparr>s_guardianName := Some v\<rparr>)
   \<circ> set_column (d_minutesUsed d) (\<lambda>v s. s\<lparr>s_minutesUsed := v\<rparr>)
   \<circ> set_column (d_minutesPurchased d) (\<lambda>v s. s\<lparr>s_minutesPurchased := v\<rparr>)
   \<circ> set_column (d_status d) (\<lambda>v s. s\<lparr>s_status := v\<rparr>)
   \<circ> set_column (d_licenseType d) (\<lambda>v s. s\<lparr>s_licenseType := v\<rparr>)
   \<circ> set_column (d_hasMedicalOpinion d) (\<lambda>v s. s\<lparr>s_hasMedicalOpinion := v\<rparr>)
   \<circ> set_column (d_needsMedicalOpinion d) (\<lambda>v s. s\<lparr>s_needsMedicalOpinion := v\<rparr>)
   \<circ> set_column (d_hasCensusCertificate d) (\<lambda>v s. s\<lparr>s_hasCensusCertificate := v\<rparr>)
   \<circ> set_column (d_hasJdcCertificate d) (\<lambda>v s. s\<lparr>s_hasJdcCertificate := v\<rparr>)
   \<circ> set_column (d_hasAssr2 d) (\<lambda>v s. s\<lparr>s_hasAssr2 := v\<rparr>)
   \<circ> set_column (d_hasProofOfAddress d) (\<lambda>v s. s\<lparr>s_hasProofOfAddress := v\<rparr>)
   \<circ> set_column (d_hasIdCard d) (\<lambda>v s. s\<lparr>s_hasIdCard := v\<rparr>)
   \<circ> set_column (d_ePhotoCode d) (\<lambda>v s. s\<lparr>s_ePhotoCode := Some v\<rparr>)
   \<circ> set_column (d_neph d) (\<lambda>v s. s\<lparr>s_neph := Some v\<rparr>)
   \<circ> set_column (d_phone d) (\<lambda>v s. s\<lparr>s_phone := v\<rparr>)
   \<circ> set_column (d_zipCode d) (\<lambda>v s. s\<lparr>s_zipCode := v\<rparr>)
   \<circ> set_column (d_city d) (\<lambda>v s. s\<lparr>s_city := v\<rparr>)
   \<circ> set_column (d_address d) (\<lambda>v s. s\<lparr>s_address := v\<rparr>)
   \<circ> set_column (d_birthCountry d) (\<lambda>v s. s\<lparr>s_birthCountry := v\<rparr>)
   \<circ> set_column (d_birthZipCode d) (\<lambda>v s. s\<lparr>s_birthZipCode := Some v\<rparr>)
   \<circ> set_column (d_birthCity d) (\<lambda>v s. s\<lparr>s_birthCity := v\<rparr>)
   \<circ> set_column (d_birthDate d) (\<lambda>v s. s\<lparr>s_birthDate := v\<rparr>)
   \<circ> set_column (d_firstName d) (\<lambda>v s. s\<lparr>s_firstName := v\<rparr>)
   \<circ> set_column (d_birthName d) (\<lambda>v s. s\<lparr>s_birthName := v\<rparr>)
   \<circ> set_column (d_tenant d) (\<lambda>v s. s\<lparr>s_tenantId := v\<rparr>)
   \<circ> set_column (d_user d) (\<lambda>v s. s\<lparr>s_userId := v\<rparr>)
   \<circ> set_column (d_id d) (\<lambda>v s. s\<lparr>s_id := v\<rparr>)"

section \<open>The audit trail\<close>

datatype json_value = JString string | JNumber int

text \<open>\<open>AuditLogData\<close>; \<open>metadata\<close> is optional.\<close>

record AuditLogData =
  al_tenantId :: string
  al_actorUserId :: string
  al_action :: string
  al_entityType :: string
  al_entityId :: string
  al_metadata :: "(string \<times> json_value) list option"

text \<open>
  A row of the \<open>AuditLog\<close> table: the \<open>data\<close> given to \<open>auditLog.create\<close> (the
  identifier and the creation time that the database adds are left out).
\<close>

record AuditLog =
  row_tenantId :: string
  row_actorUserId :: string
  row_action :: string
  row_entityType :: string
  row_entityId :: string
  row_metadata :: "(string \<times> json_value) list"

text \<open>
  What the \<open>Logger\<close> received: \<open>logger.log\<close> with the object handed to
  \<open>JSON.stringify\<close> (keys and values), \<open>logger.error\<close> with its message and context.
\<close>

datatype LogEntry =
    Logger_log "(string \<times> string) list"
  | Logger_error string "(string \<times> string) list"

section \<open>The world of a request\<close>

text \<open>
  The tables behind \<open>PrismaService\<close>, the output of the logger and the current time
  (what \<open>new Date().toISOString()\<close> gives). A table is the list of its rows; a lookup by
  a unique key takes the first row that matches. Constraints of the database (unique
  keys, foreign keys, the width of a column) are not part of the model.
\<close>

record World =
  w_users :: "User list"
  w_students :: "Student list"
  w_auditLogs :: "AuditLog list"
  w_logger :: "LogEntry list"
  w_now :: string

text \<open>
  \<open>prisma.auditLog.create\<close> is a parameter of the services that write the trail: a
  function from the row and the table to the new table or to the error the client throws
  (store unavailable, serialisation failure). This is the store in working order:
\<close>

definition auditLog_create :: "AuditLog \<Rightarrow> AuditLog list \<Rightarrow> exception + AuditLog list" where
  "auditLog_create row logs = Inr (logs @ [row])"

text \<open>\<open>try { ... } catch (error) { ... }\<close> over a computation on the world.\<close>

definition try_catch ::
  "(World \<Rightarrow> (exception + 'a) \<times> World) \<Rightarrow> (exception \<Rightarrow> World \<Rightarrow> (exception + 'a) \<times> World)
     \<Rightarrow> World \<Rightarrow> (exception + 'a) \<times> World" where
  "try_catch body handler w =
     (case body w of
        (Inl error, w') \<Rightarrow> handler error w'
      | (Inr v, w') \<Rightarrow> (Inr v, w'))"

definition logger_log :: "(string \<times> string) list \<Rightarrow> World \<Rightarrow> (exception + unit) \<times> World" where
  "logger_log obj w = (Inr (), w\<lparr>w_logger := w_logger w @ [Logger_log obj]\<rparr>)"

definition logger_error ::
  "string \<Rightarrow> (string \<times> string) list \<Rightarrow> World \<Rightarrow> (exception + unit) \<times> World" where
  "logger_error msg obj w = (Inr (), w\<lparr>w_logger := w_logger w @ [Logger_error msg obj]\<rparr>)"

text \<open>The \<open>data\<close> object that \<open>AuditService.log\<close> gives to \<open>auditLog.create\<close>.\<close>

definition auditLog_data :: "AuditLogData \<Rightarrow> AuditLog" where
  "auditLog_data data =
     \<lparr>row_tenantId = al_tenantId data, row_actorUserId = al_actorUserId data,
      row_action = al_action data, row_entityType = al_entityType data,
      row_entityId = al_entityId data,
      row_metadata = (case al_metadata data of None \<Rightarrow> [] | Some m \<Rightarrow> m)\<rparr>"

text \<open>\<open>AuditService.log\<close>\<close>

definition log ::
  "(AuditLog \<Rightarrow> AuditLog list \<Rightarrow> exception + AuditLog list) \<Rightarrow> AuditLogData \<Rightarrow> World
     \<Rightarrow> (exception + unit) \<times> World" where
  "log create data =
     try_catch
       (\<lambda>w. case create (auditLog_data data) (w_auditLogs w) of
               Inl error \<Rightarrow> (Inl error, w)
             | Inr logs' \<Rightarrow>
                 logger_log
                   [(''type'', ''audit''), (''action'', al_action data),
                    (''entityType'', al_entityType data), (''entityId'', al_entityId data),
                    (''tenantId'', al_tenantId data), (''actorUserId'', al_actorUserId data),
                    (''timestamp'', w_now w)]
                   (w\<lparr>w_auditLogs := logs'\<rparr>))
       (\<lambda>error. logger_error (''Failed to create audit log: '' @ error_message error)
          [(''action'', al_action data), (''entityType'', al_entityType data),
           (''entityId'', al_entityId data)])"

section \<open>The students service\<close>

text \<open>
  \<open>StudentWhereUniqueInput\<close>: the \<open>where\<close> object of a query, an equality condition for
  each entry that is present.
\<close>

record StudentWhereUniqueInput =
  where_id :: "string option"
  where_neph :: "string option"
  where_tenantId :: "string option"

definition student_matches :: "StudentWhereUniqueInput \<Rightarrow> Student \<Rightarrow> bool" where
  "student_matches wh s =
     ((case where_id wh of None \<Rightarrow> True | Some i \<Rightarrow> s_id s = i)
    \<and> (case where_neph wh of None \<Rightarrow> True | Some n \<Rightarrow> s_neph s = Some n)
    \<and> (case where_tenantId wh of None \<Rightarrow> True | Some t \<Rightarrow> s_tenantId s = t))"

text \<open>\<open>prisma.student.findUnique({ where })\<close>\<close>

definition student_findUnique :: "StudentWhereUniqueInput \<Rightarrow> Student list \<Rightarrow> Student option" where
  "student_findUnique wh sts = find (student_matches wh) sts"

text \<open>\<open>include: { user: { select: { id, email, role } } }\<close>\<close>

record UserIdEmailRole =
  inc_id :: string
  inc_email :: string
  inc_role :: Role

definition include_user :: "User list \<Rightarrow> Student \<Rightarrow> Student \<times> UserIdEmailRole option" where
  "include_user us s =
     (s, map_option (\<lambda>u. \<lparr>inc_id = user_id u, inc_email = user_email u, inc_role = user_role u\<rparr>)
           (user_findUnique_id (s_userId s) us))"

text \<open>Replacing the first row that satisfies a predicate.\<close>

fun update_first :: "('a \<Rightarrow> bool) \<Rightarrow> ('a \<Rightarrow> 'a) \<Rightarrow> 'a list \<Rightarrow> 'a list" where
  "update_first P f [] = []"
| "update_first P f (x # xs) = (if P x then f x # xs else x # update_first P f xs)"

text \<open>
  \<open>prisma.student.update({ where, data })\<close>: the updated row and the new table, or the
  client's error when no row matches.
\<close>

definition student_update ::
  "StudentWhereUniqueInput \<Rightarrow> StudentUpdateInput \<Rightarrow> Student list
     \<Rightarrow> exception + (Student \<times> Student list)" where
  "student_update wh d sts =
     (case student_findUnique wh sts of
        None \<Rightarrow> Inl (OtherError ''Record to update not found.'')
      | Some s \<Rightarrow> Inr (apply_data d s, update_first (student_matches wh) (apply_data d) sts))"

text \<open>\<open>prisma.user.findUnique({ where: { email } })\<close>\<close>

definition user_findUnique_email :: "string \<Rightarrow> User list \<Rightarrow> User option" where
  "user_findUnique_email e us = find (\<lambda>u. user_email u = e) us"

text \<open>\<open>prisma.user.update({ where: { id }, data: { email } })\<close>\<close>

definition user_update_email :: "string \<Rightarrow> string \<Rightarrow> User list \<Rightarrow> exception + User list" where
  "user_update_email uid e us =
     (case user_findUnique_id uid us of
        None \<Rightarrow> Inl (OtherError ''Record to update not found.'')
      | Some u \<Rightarrow> Inr (update_first (\<lambda>u. user_id u = uid) (\<lambda>u. u\<lparr>user_email := e\<rparr>) us))"

text \<open>The \<open>where\<close> objects \<open>{ id }\<close> and \<open>{ neph }\<close>.\<close>

definition by_id :: "string \<Rightarrow> StudentWhereUniqueInput" where
  "by_id sid = \<lparr>where_id = Some sid, where_neph = None, where_tenantId = None\<rparr>"

definition by_neph :: "string \<Rightarrow> StudentWhereUniqueInput" where
  "by_neph n = \<lparr>where_id = None, where_neph = Some n, where_tenantId = None\<rparr>"

text \<open>The \<open>where\<close> object that \<open>findOne\<close> sends to the store: \<open>{ id }\<close>.\<close>

definition findOne_where :: "string \<Rightarrow> StudentWhereUniqueInput" where
  "findOne_where sid = by_id sid"

definition not_found_message :: "string \<Rightarrow> string" where
  "not_found_message sid = E_acute @ ''l'' @ e_grave @ ''ve #'' @ sid @ '' introuvable''"

definition forbidden_message :: string where
  "forbidden_message = ''Acc'' @ e_grave @ ''s interdit '' @ a_grave @ '' cette ressource''"

text \<open>\<open>StudentsService.findOne\<close>\<close>

definition findOne ::
  "string \<Rightarrow> string \<Rightarrow> World \<Rightarrow> exception + (Student \<times> UserIdEmailRole option)" where
  "findOne sid tenantId w =
     (case student_findUnique (findOne_where sid) (w_students w) of
        None \<Rightarrow> Inl (NotFoundException (not_found_message sid))
      | Some student \<Rightarrow>
          if s_tenantId student \<noteq> tenantId then Inl (ForbiddenException forbidden_message)
          else Inr (include_user (w_users w) student))"

text \<open>The email step of \<open>update\<close>: \<open>if (updateStudentDto.email) { ... }\<close>\<close>

definition update_email :: "string \<Rightarrow> UpdateStudentDto \<Rightarrow> World \<Rightarrow> (exception + unit) \<times> World" where
  "update_email sid dto w =
     (case dto_email dto of
        None \<Rightarrow> (Inr (), w)
      | Some email \<Rightarrow>
          if \<not> truthy email then (Inr (), w)
          else
            (case student_findUnique (by_id sid) (w_students w) of
               None \<Rightarrow> (Inl (NotFoundException (not_found_message sid)), w)
             | Some student \<Rightarrow>
                 if (case user_findUnique_email email (w_users w) of
                       None \<Rightarrow> False
                     | Some existingUser \<Rightarrow> user_id existingUser \<noteq> s_userId student)
                 then (Inl (ConflictException
                         (''Cet email est d'' @ e_acute @ ''j'' @ a_grave @ '' utilis'' @ e_acute @ ''.'')), w)
                 else
                   (case user_update_email (s_userId student) email (w_users w) of
                      Inl e \<Rightarrow> (Inl e, w)
                    | Inr us' \<Rightarrow> (Inr (), w\<lparr>w_users := us'\<rparr>))))"

text \<open>The NEPH step of \<open>update\<close>: \<open>if (dto.neph) { ... }\<close>\<close>

definition check_neph :: "string \<Rightarrow> UpdateStudentDto \<Rightarrow> World \<Rightarrow> exception + unit" where
  "check_neph sid dto w =
     (case dto_neph dto of
        None \<Rightarrow> Inr ()
      | Some neph \<Rightarrow>
          if \<not> truthy neph then Inr ()
          else if (case student_findUnique (by_neph neph) (w_students w) of
                     None \<Rightarrow> False
                   | Some existingNeph \<Rightarrow> s_id existingNeph \<noteq> sid)
          then Inl (ConflictException
                 (''Ce num'' @ e_acute @ ''ro NEPH est d'' @ e_acute @ ''j'' @ a_grave
                    @ '' utilis'' @ e_acute @ ''.''))
          else Inr ())"

text \<open>
  The \<open>studentData\<close> of \<open>update\<close>: the DTO without \<open>email\<close>, \<open>password\<close>,
  \<open>archivedAt\<close>, \<open>birthDate\<close> and \<open>neph\<close>; then \<open>neph\<close> when defined, \<open>birthDate\<close>
  when truthy, \<open>archivedAt\<close> when defined (a date when truthy, else \<open>null\<close>).
\<close>

definition studentData :: "UpdateStudentDto \<Rightarrow> StudentUpdateInput" where
  "studentData dto =
     \<lparr>d_id = None, d_user = None, d_tenant = None,
      d_birthName = dto_birthName dto, d_firstName = dto_firstName dto,
      d_birthDate =
        (case dto_birthDate dto of
           None \<Rightarrow> None
         | Some birthDate \<Rightarrow> if truthy birthDate then Some (Date birthDate) else None),
      d_birthCity = dto_birthCity dto, d_birthZipCode = dto_birthZipCode dto,
      d_birthCountry = dto_birthCountry dto, d_address = dto_address dto,
      d_city = dto_city dto, d_zipCode = dto_zipCode dto, d_phone = dto_phone dto,
      d_neph = dto_neph dto, d_ePhotoCode = dto_ePhotoCode dto,
      d_hasIdCard = dto_hasIdCard dto, d_hasProofOfAddress = dto_hasProofOfAddress dto,
      d_hasAssr2 = dto_hasAssr2 dto, d_hasJdcCertificate = dto_hasJdcCertificate dto,
      d_hasCensusCertificate = dto_hasCensusCertificate dto,
      d_needsMedicalOpinion = dto_needsMedicalOpinion dto,
      d_hasMedicalOpinion = dto_hasMedicalOpinion dto,
      d_licenseType = dto_licenseType dto, d_status = dto_status dto,
      d_minutesPurchased = dto_minutesPurchased dto, d_minutesUsed = None,
      d_guardianName = dto_guardianName dto, d_guardianPhone = dto_guardianPhone dto,
      d_guardianEmail = dto_guardianEmail dto, d_guardianRelation = dto_guardianRelation dto,
      d_archivedAt =
        (case dto_archivedAt dto of
           None \<Rightarrow> None
         | Some None \<Rightarrow> Some None
         | Some (Some archivedAt) \<Rightarrow>
             Some (if truthy archivedAt then Some (Date archivedAt) else None))\<rparr>"

text \<open>\<open>StudentsService.update\<close>\<close>

definition update ::
  "string \<Rightarrow> UpdateStudentDto \<Rightarrow> string \<Rightarrow> World
     \<Rightarrow> (exception + (Student \<times> UserIdEmailRole option)) \<times> World" where
  "update sid dto tenantId w =
     (case findOne sid tenantId w of
        Inl e \<Rightarrow> (Inl e, w)
      | Inr found \<Rightarrow>
          (case update_email sid dto w of
             (Inl e, w1) \<Rightarrow> (Inl e, w1)
           | (Inr u, w1) \<Rightarrow>
               (case check_neph sid dto w1 of
                  Inl e \<Rightarrow> (Inl e, w1)
                | Inr u' \<Rightarrow>
                    (case student_update (by_id sid) (studentData dto) (w_students w1) of
                       Inl e \<Rightarrow> (Inl e, w1)
                     | Inr (s', sts') \<Rightarrow>
                         (Inr (include_user (w_users w1) s'), w1\<lparr>w_students := sts'\<rparr>)))))"

text \<open>The message of the conflict that \<open>addUsedMinutes\<close> raises.\<close>

definition insufficient_message :: "Student \<Rightarrow> int \<Rightarrow> string" where
  "insufficient_message student minutes =
     ''Heures insuffisantes. Disponibles: ''
       @ string_of_int (s_minutesPurchased student - s_minutesUsed student)
       @ '' min, Demand'' @ e_acute @ ''es: '' @ string_of_int minutes @ '' min''"

text \<open>The audit entry that \<open>addUsedMinutes\<close> hands to \<open>AuditService.log\<close>.\<close>

definition consumption_entry :: "string \<Rightarrow> int \<Rightarrow> string \<Rightarrow> string \<Rightarrow> Student \<Rightarrow> AuditLogData" where
  "consumption_entry sid minutes tenantId actorUserId student =
     \<lparr>al_tenantId = tenantId, al_actorUserId = actorUserId,
      al_action = ''STUDENT_HOURS_UPDATED'', al_entityType = ''Student'', al_entityId = sid,
      al_metadata = Some
        [(''studentName'', JString (s_firstName student @ '' '' @ s_birthName student)),
         (''type'', JString ''CONSUMPTION''),
         (''minutesUsed'', JNumber minutes),
         (''previousMinutesUsed'', JNumber (s_minutesUsed student)),
         (''newMinutesUsed'', JNumber (s_minutesUsed student + minutes))]\<rparr>"

text \<open>\<open>StudentsService.addUsedMinutes\<close>\<close>

definition addUsedMinutes ::
  "(AuditLog \<Rightarrow> AuditLog list \<Rightarrow> exception + AuditLog list) \<Rightarrow> string \<Rightarrow> int \<Rightarrow> string \<Rightarrow> string
     \<Rightarrow> World \<Rightarrow> (exception + Student) \<times> World" where
  "addUsedMinutes create sid minutes tenantId actorUserId w =
     (case findOne sid tenantId w of
        Inl e \<Rightarrow> (Inl e, w)
      | Inr (student, user) \<Rightarrow>
          (let newUsedMinutes = s_minutesUsed student + minutes in
           if newUsedMinutes > s_minutesPurchased student
           then (Inl (ConflictException (insufficient_message student minutes)), w)
           else
             (case student_update (by_id sid) (no_change\<lparr>d_minutesUsed := Some newUsedMinutes\<rparr>)
                     (w_students w) of
                Inl e \<Rightarrow> (Inl e, w)
              | Inr (updatedStudent, sts') \<Rightarrow>
                  (case log create (consumption_entry sid minutes tenantId actorUserId student)
                          (w\<lparr>w_students := sts'\<rparr>) of
                     (Inl e, w2) \<Rightarrow> (Inl e, w2)
                   | (Inr u, w2) \<Rightarrow> (Inr updatedStudent, w2)))))"

section \<open>Fixtures\<close>

text \<open>
  The student of the service's unit tests (1200 minutes purchased, 300 used, tenant
  \<open>tenant-123\<close>), its user account, an administrator of the same tenant, and a world
  that holds them.
\<close>

definition mockStudent :: Student where
  "mockStudent =
     \<lparr>s_id = ''student-789'', s_userId = ''user-456'', s_tenantId = ''tenant-123'',
      s_birthName = ''DUPONT'', s_firstName = ''Marie'', s_birthDate = Date ''2000-05-15'',
      s_birthCity = ''Paris'', s_birthZipCode = None, s_birthCountry = ''FRANCE'',
      s_address = ''12 rue de la R'' @ e_acute @ ''publique'', s_city = ''Lyon'',
      s_zipCode = ''69001'', s_phone = ''+33612345678'', s_neph = None, s_ePhotoCode = None,
      s_hasIdCard = False, s_hasProofOfAddress = False, s_hasAssr2 = False,
      s_hasJdcCertificate = False, s_hasCensusCertificate = False,
      s_needsMedicalOpinion = False, s_hasMedicalOpinion = False,
      s_licenseType = License_B, s_status = PROSPECT,
      s_minutesPurchased = 1200, s_minutesUsed = 300,
      s_guardianName = None, s_guardianPhone = None, s_guardianEmail = None,
      s_guardianRelation = None, s_archivedAt = None\<rparr>"

definition mockStudentUser :: User where
  "mockStudentUser =
     \<lparr>user_id = ''user-456'', user_email = ''eleve@test.fr'', user_password = ''hash'',
      user_role = STUDENT, user_tenantId = ''tenant-123''\<rparr>"

definition mockActor :: User where
  "mockActor =
     \<lparr>user_id = ''actor-999'', user_email = ''admin@test.fr'', user_password = ''hash'',
      user_role = ADMIN, user_tenantId = ''tenant-123''\<rparr>"

definition mockWorld :: World where
  "mockWorld =
     \<lparr>w_users = [mockStudentUser, mockActor], w_students = [mockStudent],
      w_auditLogs = [], w_logger = [], w_now = ''2026-01-26T10:30:00.000Z''\<rparr>"

text \<open>
  The plain object \<open>{ firstName: 'Julie' }\<close> that the service's unit test hands to
  \<open>update\<close>. (The DTO that the validation pipe builds from a request body like it
  carries the initialisers of \<open>CreateStudentDto\<close> as well: \<open>minutesPurchased\<close> 0,
  \<open>status\<close> \<open>PROSPECT\<close> and the others.)
\<close>

definition mockUpdateDto :: UpdateStudentDto where
  "mockUpdateDto =
     \<lparr>dto_birthName = None, dto_firstName = Some ''Julie'', dto_birthDate = None,
      dto_birthCity = None, dto_birthZipCode = None, dto_birthCountry = None,
      dto_address = None, dto_city = None, dto_zipCode = None, dto_phone = None,
      dto_email = None, dto_password = None, dto_neph = None, dto_ePhotoCode = None,
      dto_hasIdCard = None, dto_hasProofOfAddress = None, dto_hasAssr2 = None,
      dto_hasJdcCertificate = None, dto_hasCensusCertificate = None,
      dto_needsMedicalOpinion = None, dto_hasMedicalOpinion = None, dto_licenseType = None,
      dto_status = None, dto_minutesPurchased = None, dto_guardianName = None,
      dto_guardianPhone = None, dto_guardianEmail = None, dto_guardianRelation = None,
      dto_archivedAt = None\<rparr>"

text \<open>
  A token verifier that accepts the one token \<open>valid-token\<close>, issued to a subject, and
  a request that carries it.
\<close>

definition mockVerify :: "string \<Rightarrow> string \<Rightarrow> JwtPayload option" where
  "mockVerify sub token =
     (if token = ''valid-token''
      then Some \<lparr>jwt_sub = sub, jwt_tenantId = ''tenant-123'', jwt_role = ''ADMIN'',
                 jwt_iat = Some 1234567890, jwt_exp = Some 9999999999\<rparr>
      else None)"

definition mockRequest :: Request where
  "mockRequest = \<lparr>req_bearer = Some ''valid-token'', req_user = None\<rparr>"

text \<open>An account whose tenant identifier is the empty string.\<close>

definition tenantlessAdmin :: User where
  "tenantlessAdmin =
     \<lparr>user_id = ''admin-000'', user_email = ''root@test.fr'', user_password = ''hash'',
      user_role = ADMIN, user_tenantId = []\<rparr>"

section \<open>Lemmas on tables and rows\<close>

lemma find_update_first:
  "find P xs = Some x \<Longrightarrow> P (f x) \<Longrightarrow> find P (update_first P f xs) = Some (f x)"
  by (induction xs) (auto split: if_splits)

lemma map_update_first:
  "(\<And>x. g (f x) = g x) \<Longrightarrow> map g (update_first P f xs) = map g xs"
  by (induction xs) auto

lemma find_Some_D: "find P xs = Some x \<Longrightarrow> P x \<and> x \<in> set xs"
  by (induction xs) (auto split: if_splits)

lemma set_column_keeps_id:
  "(\<And>v s. s_id (f v s) = s_id s) \<Longrightarrow> s_id (set_column x f s) = s_id s"
  by (cases x) auto

lemma set_column_keeps_tenantId:
  "(\<And>v s. s_tenantId (f v s) = s_tenantId s) \<Longrightarrow> s_tenantId (set_column x f s) = s_tenantId s"
  by (cases x) auto

lemma set_column_keeps_userId:
  "(\<And>v s. s_userId (f v s) = s_userId s) \<Longrightarrow> s_userId (set_column x f s) = s_userId s"
  by (cases x) auto

lemma set_column_keeps_minutesUsed:
  "(\<And>v s. s_minutesUsed (f v s) = s_minutesUsed s)
     \<Longrightarrow> s_minutesUsed (set_column x f s) = s_minutesUsed s"
  by (cases x) auto

lemma apply_studentData_id: "s_id (apply_data (studentData dto) s) = s_id s"
  by (simp add: apply_data_def studentData_def set_column_keeps_id)

lemma apply_studentData_tenantId: "s_tenantId (apply_data (studentData dto) s) = s_tenantId s"
  by (simp add: apply_data_def studentData_def set_column_keeps_tenantId)

lemma apply_studentData_userId: "s_userId (apply_data (studentData dto) s) = s_userId s"
  by (simp add: apply_data_def studentData_def set_column_keeps_userId)

lemma apply_studentData_minutesUsed:
  "s_minutesUsed (apply_data (studentData dto) s) = s_minutesUsed s"
  by (simp add: apply_data_def studentData_def set_column_keeps_minutesUsed)

lemma apply_minutesUsed:
  "apply_data (no_change\<lparr>d_minutesUsed := Some n\<rparr>) s = s\<lparr>s_minutesUsed := n\<rparr>"
  by (simp add: apply_data_def no_change_def)

lemma student_matches_by_id: "student_matches (by_id sid) = (\<lambda>x. s_id x = sid)"
  by (simp add: student_matches_def by_id_def fun_eq_iff)

lemma student_findUnique_by_id:
  "student_findUnique (by_id sid) sts = find (\<lambda>x. s_id x = sid) sts"
  by (simp add: student_findUnique_def student_matches_by_id)

lemma student_update_by_id:
  assumes "find (\<lambda>x. s_id x = sid) sts = Some s" and "s_id (apply_data d s) = sid"
  shows "\<exists>sts'. student_update (by_id sid) d sts = Inr (apply_data d s, sts')
           \<and> find (\<lambda>x. s_id x = sid) sts' = Some (apply_data d s)
           \<and> sts' = update_first (\<lambda>x. s_id x = sid) (apply_data d) sts"
  using assms
  by (simp add: student_update_def student_findUnique_by_id student_matches_by_id find_update_first)

lemma mockStudent_found:
  "find (\<lambda>x. s_id x = ''student-789'') (w_students mockWorld) = Some mockStudent"
  by (simp add: mockWorld_def mockStudent_def)

section \<open>Reading one student: tenant isolation\<close>

text \<open>
  C1. A principal of tenant A asks \<open>findOne\<close> for a student by identifier. When the
  student exists and belongs to another tenant the call fails with
  \<open>ForbiddenException\<close>, whose message is a constant and carries nothing of the row;
  when no student has the identifier it fails with \<open>NotFoundException\<close>; the two
  failures differ.
\<close>

theorem findOne_other_tenant:
  assumes "find (\<lambda>x. s_id x = sid) (w_students w) = Some s"
    and "s_tenantId s \<noteq> tenantId"
    and "sid' \<notin> s_id ` set (w_students w)"
  shows "findOne sid tenantId w = Inl (ForbiddenException forbidden_message)
       \<and> findOne sid' tenantId w = Inl (NotFoundException (not_found_message sid'))
       \<and> findOne sid tenantId w \<noteq> findOne sid' tenantId w"
proof -
  have "find (\<lambda>x. s_id x = sid') (w_students w) = None"
    using assms(3) by (auto simp: find_None_iff)
  then show ?thesis
    using assms(1,2) by (simp add: findOne_def findOne_where_def student_findUnique_by_id)
qed

theorem findOne_other_tenant_witness:
  "findOne ''student-789'' ''tenant-other'' mockWorld = Inl (ForbiddenException forbidden_message)
   \<and> findOne ''student-000'' ''tenant-other'' mockWorld
       = Inl (NotFoundException (not_found_message ''student-000''))"
  using findOne_other_tenant
          [of "''student-789''" mockWorld mockStudent "''tenant-other''" "''student-000''"]
  by (simp add: mockWorld_def mockStudent_def)

text \<open>
  C2. The claim: in \<open>findOne\<close> the equality on the principal's tenant is part of the
  \<open>where\<close> object sent to the store, not a check on the row once fetched. The code
  sends \<open>{ id }\<close> alone: for a principal of \<open>tenant-other\<close> the store hands the row
  of \<open>tenant-123\<close> to the service, which compares the tenants afterwards and answers
  \<open>ForbiddenException\<close>. The query that the repository's own rule asks for,
  \<open>{ id, tenantId }\<close>, finds no row there.
\<close>

theorem findOne_query_has_no_tenant_filter:
  "where_tenantId (findOne_where ''student-789'') = None
   \<and> student_findUnique (findOne_where ''student-789'') (w_students mockWorld) = Some mockStudent
   \<and> s_tenantId mockStudent \<noteq> ''tenant-other''
   \<and> findOne ''student-789'' ''tenant-other'' mockWorld = Inl (ForbiddenException forbidden_message)
   \<and> student_findUnique
         \<lparr>where_id = Some ''student-789'', where_neph = None, where_tenantId = Some ''tenant-other''\<rparr>
         (w_students mockWorld) = None"
  by (simp add: findOne_def findOne_where_def by_id_def student_findUnique_def student_matches_def
      mockWorld_def mockStudent_def)

text \<open>
  What \<open>findOne\<close> does return is a row of the principal's own tenant: the row the store
  found for the identifier, kept only when the comparison that follows succeeds.
\<close>

lemma findOne_returns_own_tenant_only:
  assumes "findOne sid tenantId w = Inr r"
  shows "student_findUnique (findOne_where sid) (w_students w) = Some (fst r)
       \<and> s_id (fst r) = sid
       \<and> s_tenantId (fst r) = tenantId"
  using assms
  by (auto simp: findOne_def findOne_where_def student_findUnique_by_id include_user_def
      split: option.splits if_splits dest: find_Some_D)

section \<open>The role check\<close>



text \<open>
  The metadata defined as the empty array, which a \<open>@Roles()\<close> without arguments would
  give and no route of the repository declares, is another matter: the array is truthy
  and \<open>some\<close> finds no role in it.
\<close>

lemma RolesGuard_empty_array:
  "RolesGuard_canActivate \<lparr>ctx_handler_roles = Some [], ctx_class_roles = cr, ctx_request = req\<rparr>
     = Inr False"
  by (simp add: RolesGuard_canActivate_def)

lemma some_role_member: "some_role (Some u) R = Inr (cu_role u \<in> set R)"
  by (induction R) auto

text \<open>
  C4. With a non-empty role requirement \<open>R\<close> in force and a principal on the request,
  \<open>RolesGuard.canActivate\<close> answers true iff the principal's role is one of \<open>R\<close>, for
  each of the four roles; a false answer ends the guard chain with
  \<open>ForbiddenException\<close>.
\<close>

theorem RolesGuard_or_semantics:
  assumes "getAllAndOverride [ctx_handler_roles c, ctx_class_roles c] = Some R"
    and "R \<noteq> []"
    and "req_user (ctx_request c) = Some u"
  shows "RolesGuard_canActivate c = Inr (cu_role u \<in> set R)
       \<and> tryActivate verify us [RolesGuard] c
           = (if cu_role u \<in> set R then Inr c else Inl (ForbiddenException ''Forbidden resource''),
              [RolesGuard])"
  using assms by (simp add: RolesGuard_canActivate_def some_role_member)

theorem RolesGuard_or_semantics_witness:
  "RolesGuard_canActivate
     \<lparr>ctx_handler_roles = None, ctx_class_roles = Some [ADMIN, SECRETARY],
      ctx_request = \<lparr>req_bearer = Some ''valid-token'',
                     req_user = Some \<lparr>cu_userId = ''u1'', cu_email = ''s@test.fr'',
                                      cu_tenantId = ''tenant-123'', cu_role = SECRETARY\<rparr>\<rparr>\<rparr>
     = Inr True
   \<and> fst (tryActivate (\<lambda>t. None) [] [RolesGuard]
       \<lparr>ctx_handler_roles = Some [ADMIN], ctx_class_roles = Some [ADMIN, SECRETARY],
        ctx_request = \<lparr>req_bearer = Some ''valid-token'',
                       req_user = Some \<lparr>cu_userId = ''u2'', cu_email = ''i@test.fr'',
                                        cu_tenantId = ''tenant-123'', cu_role = INSTRUCTOR\<rparr>\<rparr>\<rparr>)
     = Inl (ForbiddenException ''Forbidden resource'')"
  using RolesGuard_or_semantics
      [of "\<lparr>ctx_handler_roles = None, ctx_class_roles = Some [ADMIN, SECRETARY],
            ctx_request = \<lparr>req_bearer = Some ''valid-token'',
                     req_user = Some \<lparr>cu_userId = ''u1'', cu_email = ''s@test.fr'',
                                      cu_tenantId = ''tenant-123'', cu_role = SECRETARY\<rparr>\<rparr>\<rparr>"
          "[ADMIN, SECRETARY]"
          "\<lparr>cu_userId = ''u1'', cu_email = ''s@test.fr'', cu_tenantId = ''tenant-123'',
            cu_role = SECRETARY\<rparr>"]
    RolesGuard_or_semantics
      [of "\<lparr>ctx_handler_roles = Some [ADMIN], ctx_class_roles = Some [ADMIN, SECRETARY],
        ctx_request = \<lparr>req_bearer = Some ''valid-token'',
                       req_user = Some \<lparr>cu_userId = ''u2'', cu_email = ''i@test.fr'',
                                        cu_tenantId = ''tenant-123'', cu_role = INSTRUCTOR\<rparr>\<rparr>\<rparr>"
          "[ADMIN]"
          "\<lparr>cu_userId = ''u2'', cu_email = ''i@test.fr'', cu_tenantId = ''tenant-123'',
            cu_role = INSTRUCTOR\<rparr>"
          "\<lambda>t. None" "[]"]
  by simp

section \<open>Principal resolution\<close>

text \<open>
  C6. A token whose signature and expiry are valid, but whose subject is no longer in
  the \<open>User\<close> table (\<open>validateUser\<close> gives null): \<open>JwtStrategy.validate\<close> throws
  \<open>UnauthorizedException\<close>, so does the guard, no principal is attached to the request
  and no later guard runs.
\<close>

theorem validate_deleted_subject:
  assumes "validateUser us (jwt_sub payload) = None"
    and "req_bearer (ctx_request c) = Some token"
    and "verify token = Some payload"
  shows "validate us payload
           = Inl (UnauthorizedException (''Utilisateur invalide ou supprim'' @ e_acute))
       \<and> JwtAuthGuard_canActivate verify us c
           = Inl (UnauthorizedException (''Utilisateur invalide ou supprim'' @ e_acute))
       \<and> tryActivate verify us (JwtAuthGuard # gs) c
           = (Inl (UnauthorizedException (''Utilisateur invalide ou supprim'' @ e_acute)),
              [JwtAuthGuard])"
  using assms by (simp add: validate_def JwtAuthGuard_canActivate_def)

theorem validate_deleted_subject_witness:
  "validateUser (w_users mockWorld) ''deleted-user-id'' = None
   \<and> validate (w_users mockWorld)
        \<lparr>jwt_sub = ''deleted-user-id'', jwt_tenantId = ''tenant-123'', jwt_role = ''ADMIN'',
         jwt_iat = Some 1234567890, jwt_exp = Some 9999999999\<rparr>
       = Inl (UnauthorizedException (''Utilisateur invalide ou supprim'' @ e_acute))
   \<and> tryActivate (mockVerify ''deleted-user-id'') (w_users mockWorld) [JwtAuthGuard, RolesGuard]
        (StudentsController_context Route_findOne mockRequest)
       = (Inl (UnauthorizedException (''Utilisateur invalide ou supprim'' @ e_acute)),
          [JwtAuthGuard])"
proof -
  have a: "validateUser (w_users mockWorld)
             (jwt_sub \<lparr>jwt_sub = ''deleted-user-id'', jwt_tenantId = ''tenant-123'',
                       jwt_role = ''ADMIN'', jwt_iat = Some 1234567890,
                       jwt_exp = Some 9999999999\<rparr>) = None"
    by (simp add: validateUser_def user_findUnique_id_def mockWorld_def mockStudentUser_def
        mockActor_def)
  have b: "req_bearer (ctx_request (StudentsController_context Route_findOne mockRequest))
             = Some ''valid-token''"
    by (simp add: StudentsController_context_def mockRequest_def)
  have c: "mockVerify ''deleted-user-id'' ''valid-token''
             = Some \<lparr>jwt_sub = ''deleted-user-id'', jwt_tenantId = ''tenant-123'',
                      jwt_role = ''ADMIN'', jwt_iat = Some 1234567890,
                      jwt_exp = Some 9999999999\<rparr>"
    by (simp add: mockVerify_def)
  show ?thesis
    using a b c
      validate_deleted_subject
        [of "w_users mockWorld"
            "\<lparr>jwt_sub = ''deleted-user-id'', jwt_tenantId = ''tenant-123'',
              jwt_role = ''ADMIN'', jwt_iat = Some 1234567890, jwt_exp = Some 9999999999\<rparr>"
            "StudentsController_context Route_findOne mockRequest" "''valid-token''"
            "mockVerify ''deleted-user-id''" "[RolesGuard]"]
    by simp
qed

section \<open>Consuming minutes\<close>

lemma log_returns:
  "\<exists>w'. log create data w = (Inr (), w') \<and> w_students w' = w_students w \<and> w_users w' = w_users w
        \<and> w_auditLogs w' = (case create (auditLog_data data) (w_auditLogs w) of
                               Inl e \<Rightarrow> w_auditLogs w | Inr logs' \<Rightarrow> logs')"
  by (auto simp: log_def try_catch_def logger_log_def logger_error_def split: sum.splits)

lemma addUsedMinutes_success:
  assumes "find (\<lambda>x. s_id x = sid) (w_students w) = Some s"
    and "s_tenantId s = tenantId"
    and "s_minutesUsed s + minutes \<le> s_minutesPurchased s"
  shows "\<exists>w'. addUsedMinutes create sid minutes tenantId actorUserId w
                = (Inr (s\<lparr>s_minutesUsed := s_minutesUsed s + minutes\<rparr>), w')
             \<and> find (\<lambda>x. s_id x = sid) (w_students w')
                = Some (s\<lparr>s_minutesUsed := s_minutesUsed s + minutes\<rparr>)
             \<and> w_auditLogs w'
                = (case create (auditLog_data (consumption_entry sid minutes tenantId actorUserId s))
                          (w_auditLogs w) of
                     Inl e \<Rightarrow> w_auditLogs w | Inr logs' \<Rightarrow> logs')"
proof -
  let ?d = "no_change\<lparr>d_minutesUsed := Some (s_minutesUsed s + minutes)\<rparr>"
  let ?s' = "s\<lparr>s_minutesUsed := s_minutesUsed s + minutes\<rparr>"
  let ?data = "consumption_entry sid minutes tenantId actorUserId s"
  have sid: "s_id s = sid"
    using assms(1) by (auto dest: find_Some_D)
  have found: "findOne sid tenantId w = Inr (include_user (w_users w) s)"
    using assms(1,2) by (simp add: findOne_def findOne_where_def student_findUnique_by_id)
  have ap: "apply_data ?d s = ?s'"
    by (rule apply_minutesUsed)
  obtain sts' where upd: "student_update (by_id sid) ?d (w_students w) = Inr (?s', sts')"
    and stored: "find (\<lambda>x. s_id x = sid) sts' = Some ?s'"
    using student_update_by_id [OF assms(1), of ?d] sid ap by auto
  obtain w' where lg: "log create ?data (w\<lparr>w_students := sts'\<rparr>) = (Inr (), w')"
    and st: "w_students w' = sts'"
    and al: "w_auditLogs w' = (case create (auditLog_data ?data) (w_auditLogs w) of
                               Inl e \<Rightarrow> w_auditLogs w | Inr logs' \<Rightarrow> logs')"
    using log_returns [of create ?data "w\<lparr>w_students := sts'\<rparr>"]
    by (auto cong: sum.case_cong)
  have "addUsedMinutes create sid minutes tenantId actorUserId w = (Inr ?s', w')"
    using found upd lg assms(3) by (simp add: addUsedMinutes_def include_user_def Let_def)
  with stored st al show ?thesis by auto
qed

lemma addUsedMinutes_conflict:
  assumes "find (\<lambda>x. s_id x = sid) (w_students w) = Some s"
    and "s_tenantId s = tenantId"
    and "s_minutesUsed s + minutes > s_minutesPurchased s"
  shows "addUsedMinutes create sid minutes tenantId actorUserId w
           = (Inl (ConflictException (insufficient_message s minutes)), w)"
  using assms
  by (simp add: addUsedMinutes_def findOne_def findOne_where_def student_findUnique_by_id
      include_user_def Let_def)

lemma insufficient_message_example:
  "insufficient_message mockStudent 1000
     = ''Heures insuffisantes. Disponibles: 900 min, Demand'' @ e_acute @ ''es: 1000 min''"
  by (simp add: insufficient_message_def mockStudent_def string_of_int_def
      Number_toString_nat_def string_of_nat.simps digit_char_def Let_def)

text \<open>
  C5. For a student of the principal's tenant with \<open>minutesUsed \<le> minutesPurchased\<close>,
  \<open>addUsedMinutes\<close> either succeeds, storing \<open>minutesUsed + minutes\<close>, which is at most
  \<open>minutesPurchased\<close> (itself unchanged), or, when \<open>minutesUsed + minutes\<close> exceeds
  \<open>minutesPurchased\<close>, throws \<open>ConflictException\<close> and leaves the whole world as it
  was: both counters, and the audit table, which gets no record.
\<close>

theorem addUsedMinutes_keeps_used_le_purchased:
  assumes "find (\<lambda>x. s_id x = sid) (w_students w) = Some s"
    and "s_tenantId s = tenantId"
    and "s_minutesUsed s \<le> s_minutesPurchased s"
  shows "(s_minutesUsed s + minutes \<le> s_minutesPurchased s \<longrightarrow>
           (\<exists>s' w'. addUsedMinutes create sid minutes tenantId actorUserId w = (Inr s', w')
              \<and> find (\<lambda>x. s_id x = sid) (w_students w') = Some s'
              \<and> s_minutesUsed s' = s_minutesUsed s + minutes
              \<and> s_minutesPurchased s' = s_minutesPurchased s
              \<and> s_minutesUsed s' \<le> s_minutesPurchased s'))
       \<and> (s_minutesUsed s + minutes > s_minutesPurchased s \<longrightarrow>
           (\<exists>msg. addUsedMinutes create sid minutes tenantId actorUserId w
                     = (Inl (ConflictException msg), w)))"
proof (intro conjI impI)
  assume le: "s_minutesUsed s + minutes \<le> s_minutesPurchased s"
  from addUsedMinutes_success [OF assms(1,2) le, of create actorUserId]
  obtain w' where "addUsedMinutes create sid minutes tenantId actorUserId w
                = (Inr (s\<lparr>s_minutesUsed := s_minutesUsed s + minutes\<rparr>), w')"
    and "find (\<lambda>x. s_id x = sid) (w_students w')
                = Some (s\<lparr>s_minutesUsed := s_minutesUsed s + minutes\<rparr>)"
    by auto
  with le show "\<exists>s' w'. addUsedMinutes create sid minutes tenantId actorUserId w = (Inr s', w')
              \<and> find (\<lambda>x. s_id x = sid) (w_students w') = Some s'
              \<and> s_minutesUsed s' = s_minutesUsed s + minutes
              \<and> s_minutesPurchased s' = s_minutesPurchased s
              \<and> s_minutesUsed s' \<le> s_minutesPurchased s'"
    by auto
next
  assume gt: "s_minutesUsed s + minutes > s_minutesPurchased s"
  from addUsedMinutes_conflict [OF assms(1,2) gt]
  show "\<exists>msg. addUsedMinutes create sid minutes tenantId actorUserId w
                     = (Inl (ConflictException msg), w)"
    by blast
qed

theorem addUsedMinutes_keeps_used_le_purchased_witness:
  "(\<exists>msg. addUsedMinutes auditLog_create ''student-789'' 1000 ''tenant-123'' ''actor-999'' mockWorld
            = (Inl (ConflictException msg), mockWorld))
   \<and> (\<exists>s' w'. addUsedMinutes auditLog_create ''student-789'' 60 ''tenant-123'' ''actor-999'' mockWorld
            = (Inr s', w')
          \<and> find (\<lambda>x. s_id x = ''student-789'') (w_students w') = Some s'
          \<and> s_minutesUsed s' = 360 \<and> s_minutesPurchased s' = 1200)"
proof -
  have t: "s_tenantId mockStudent = ''tenant-123''"
    and i: "s_minutesUsed mockStudent \<le> s_minutesPurchased mockStudent"
    and u: "s_minutesUsed mockStudent = 300" and p: "s_minutesPurchased mockStudent = 1200"
    by (simp_all add: mockStudent_def)
  show ?thesis
    using addUsedMinutes_keeps_used_le_purchased
            [OF mockStudent_found t i, of 1000 auditLog_create "''actor-999''"]
          addUsedMinutes_keeps_used_le_purchased
            [OF mockStudent_found t i, of 60 auditLog_create "''actor-999''"]
    by (simp add: u p) blast
qed

text \<open>
  C10. \<open>addUsedMinutes\<close> puts no lower bound on \<open>minutes\<close>: for every integer, zero and
  negative ones too, the call succeeds whenever \<open>minutesUsed + minutes \<le> minutesPurchased\<close>
  and stores that sum, so a negative \<open>minutes\<close> is accepted and can leave \<open>minutesUsed\<close>
  below zero.
\<close>

theorem addUsedMinutes_no_lower_bound:
  assumes "find (\<lambda>x. s_id x = sid) (w_students w) = Some s"
    and "s_tenantId s = tenantId"
    and "s_minutesUsed s + minutes \<le> s_minutesPurchased s"
  shows "\<exists>w'. addUsedMinutes create sid minutes tenantId actorUserId w
                = (Inr (s\<lparr>s_minutesUsed := s_minutesUsed s + minutes\<rparr>), w')
             \<and> find (\<lambda>x. s_id x = sid) (w_students w')
                = Some (s\<lparr>s_minutesUsed := s_minutesUsed s + minutes\<rparr>)"
  using addUsedMinutes_success [OF assms, of create actorUserId] by blast

theorem addUsedMinutes_no_lower_bound_witness:
  "\<exists>w'. addUsedMinutes auditLog_create ''student-789'' (- 500) ''tenant-123'' ''actor-999'' mockWorld
           = (Inr (mockStudent\<lparr>s_minutesUsed := - 200\<rparr>), w')
        \<and> find (\<lambda>x. s_id x = ''student-789'') (w_students w')
           = Some (mockStudent\<lparr>s_minutesUsed := - 200\<rparr>)
        \<and> s_minutesUsed (mockStudent\<lparr>s_minutesUsed := - 200\<rparr>) < 0"
proof -
  have t: "s_tenantId mockStudent = ''tenant-123''"
    and i: "s_minutesUsed mockStudent + (- 500) \<le> s_minutesPurchased mockStudent"
    and u: "s_minutesUsed mockStudent = 300"
    by (simp_all add: mockStudent_def)
  show ?thesis
    using addUsedMinutes_no_lower_bound [OF mockStudent_found t i, of auditLog_create "''actor-999''"]
    by (simp add: u)
qed

section \<open>The audit write never fails its caller\<close>

text \<open>
  C7. \<open>AuditService.log\<close> returns normally for every entry and every behaviour of
  the store. When the insert fails with an error, whatever it is, the error is caught
  and reported with \<open>logger.error\<close>, nothing else changes and nothing is thrown; so
  \<open>addUsedMinutes\<close>, whose update has taken effect by then, still returns the updated
  student to its caller, with no audit record written.
\<close>

theorem log_never_raises:
  "fst (log create data w) = Inr ()
   \<and> (create (auditLog_data data) (w_auditLogs w) = Inl error \<longrightarrow>
        log create data w
          = (Inr (),
             w\<lparr>w_logger := w_logger w @
                  [Logger_error (''Failed to create audit log: '' @ error_message error)
                     [(''action'', al_action data), (''entityType'', al_entityType data),
                      (''entityId'', al_entityId data)]]\<rparr>))
   \<and> (find (\<lambda>x. s_id x = sid) (w_students w) = Some s \<and> s_tenantId s = tenantId
        \<and> s_minutesUsed s + minutes \<le> s_minutesPurchased s
        \<and> (\<forall>row logs. create row logs = Inl error) \<longrightarrow>
        (\<exists>w'. addUsedMinutes create sid minutes tenantId actorUserId w
                 = (Inr (s\<lparr>s_minutesUsed := s_minutesUsed s + minutes\<rparr>), w')
             \<and> find (\<lambda>x. s_id x = sid) (w_students w')
                 = Some (s\<lparr>s_minutesUsed := s_minutesUsed s + minutes\<rparr>)
             \<and> w_auditLogs w' = w_auditLogs w))"
proof (intro conjI impI)
  show "fst (log create data w) = Inr ()"
    using log_returns [of create data w] by auto
next
  assume "create (auditLog_data data) (w_auditLogs w) = Inl error"
  then show "log create data w
          = (Inr (),
             w\<lparr>w_logger := w_logger w @
                  [Logger_error (''Failed to create audit log: '' @ error_message error)
                     [(''action'', al_action data), (''entityType'', al_entityType data),
                      (''entityId'', al_entityId data)]]\<rparr>)"
    by (simp add: log_def try_catch_def logger_error_def)
next
  assume h: "find (\<lambda>x. s_id x = sid) (w_students w) = Some s \<and> s_tenantId s = tenantId
        \<and> s_minutesUsed s + minutes \<le> s_minutesPurchased s
        \<and> (\<forall>row logs. create row logs = Inl error)"
  then have a: "find (\<lambda>x. s_id x = sid) (w_students w) = Some s" and b: "s_tenantId s = tenantId"
    and c: "s_minutesUsed s + minutes \<le> s_minutesPurchased s"
    and d: "\<And>row logs. create row logs = Inl error"
    by auto
  show "\<exists>w'. addUsedMinutes create sid minutes tenantId actorUserId w
                 = (Inr (s\<lparr>s_minutesUsed := s_minutesUsed s + minutes\<rparr>), w')
             \<and> find (\<lambda>x. s_id x = sid) (w_students w')
                 = Some (s\<lparr>s_minutesUsed := s_minutesUsed s + minutes\<rparr>)
             \<and> w_auditLogs w' = w_auditLogs w"
    using addUsedMinutes_success [OF a b c, of create actorUserId] by (simp add: d)
qed

theorem log_never_raises_witness:
  "log (\<lambda>row logs. Inl (OtherError ''Connection refused''))
     (consumption_entry ''student-789'' 60 ''tenant-123'' ''actor-999'' mockStudent) mockWorld
     = (Inr (),
        mockWorld\<lparr>w_logger :=
          [Logger_error ''Failed to create audit log: Connection refused''
             [(''action'', ''STUDENT_HOURS_UPDATED''), (''entityType'', ''Student''),
              (''entityId'', ''student-789'')]]\<rparr>)
   \<and> (\<exists>w'. addUsedMinutes (\<lambda>row logs. Inl (OtherError ''Connection refused''))
              ''student-789'' 60 ''tenant-123'' ''actor-999'' mockWorld
              = (Inr (mockStudent\<lparr>s_minutesUsed := 360\<rparr>), w')
          \<and> find (\<lambda>x. s_id x = ''student-789'') (w_students w')
              = Some (mockStudent\<lparr>s_minutesUsed := 360\<rparr>)
          \<and> w_auditLogs w' = [])"
proof -
  have t: "s_tenantId mockStudent = ''tenant-123''"
    and u: "s_minutesUsed mockStudent = 300" and p: "s_minutesPurchased mockStudent = 1200"
    by (simp_all add: mockStudent_def)
  have l: "w_logger mockWorld = []" and a: "w_auditLogs mockWorld = []"
    by (simp_all add: mockWorld_def)
  show ?thesis
    using log_never_raises
            [of "\<lambda>row logs. Inl (OtherError ''Connection refused'')"
                "consumption_entry ''student-789'' 60 ''tenant-123'' ''actor-999'' mockStudent"
                mockWorld "OtherError ''Connection refused''" "''student-789''" mockStudent
                "''tenant-123''" 60 "''actor-999''"]
          mockStudent_found
    by (simp add: t u p l a consumption_entry_def)
qed

section \<open>What an update leaves alone\<close>

lemma update_email_students:
  "update_email sid dto w = (r, w1) \<Longrightarrow> w_students w1 = w_students w"
  by (auto simp: update_email_def split: option.splits if_splits sum.splits)

text \<open>
  C9. After a successful \<open>update(id, dto, tenantId)\<close>, whatever the DTO, the stored
  student has the \<open>tenantId\<close>, \<open>userId\<close> and \<open>minutesUsed\<close> it had before, and so has
  every other row of the table: the update data is built from the DTO's properties,
  none of which is one of these columns.
\<close>

theorem update_keeps_tenant_user_minutesUsed:
  assumes "update sid dto tenantId w = (Inr r, w')"
  shows "\<exists>s. find (\<lambda>x. s_id x = sid) (w_students w) = Some s
           \<and> find (\<lambda>x. s_id x = sid) (w_students w') = Some (fst r)
           \<and> s_tenantId (fst r) = s_tenantId s
           \<and> s_userId (fst r) = s_userId s
           \<and> s_minutesUsed (fst r) = s_minutesUsed s
           \<and> map s_tenantId (w_students w') = map s_tenantId (w_students w)
           \<and> map s_userId (w_students w') = map s_userId (w_students w)
           \<and> map s_minutesUsed (w_students w') = map s_minutesUsed (w_students w)"
proof -
  from assms obtain found where f: "findOne sid tenantId w = Inr found"
    by (auto simp: update_def split: sum.splits)
  then obtain s where s: "find (\<lambda>x. s_id x = sid) (w_students w) = Some s"
    by (auto simp: findOne_def findOne_where_def student_findUnique_by_id
        split: option.splits if_splits)
  from assms f obtain u w1 where e: "update_email sid dto w = (Inr u, w1)"
    by (auto simp: update_def split: sum.splits prod.splits)
  then have st1: "w_students w1 = w_students w"
    by (rule update_email_students)
  let ?s' = "apply_data (studentData dto) s"
  let ?sts' = "update_first (\<lambda>x. s_id x = sid) (apply_data (studentData dto)) (w_students w)"
  have sid: "s_id s = sid"
    using s by (auto dest: find_Some_D)
  have upd: "student_update (by_id sid) (studentData dto) (w_students w1) = Inr (?s', ?sts')"
    and stored: "find (\<lambda>x. s_id x = sid) ?sts' = Some ?s'"
    using student_update_by_id [OF s, of "studentData dto"] sid st1
    by (auto simp: apply_studentData_id)
  from assms f e upd have r: "fst r = ?s'" and w': "w_students w' = ?sts'"
    by (auto simp: update_def include_user_def split: sum.splits)
  show ?thesis
    using s stored r w'
    by (simp add: apply_studentData_tenantId apply_studentData_userId
        apply_studentData_minutesUsed map_update_first)
qed

theorem update_keeps_tenant_user_minutesUsed_witness:
  "fst (update ''student-789'' mockUpdateDto ''tenant-123'' mockWorld)
     = Inr (include_user (w_users mockWorld) (mockStudent\<lparr>s_firstName := ''Julie''\<rparr>))
   \<and> w_students (snd (update ''student-789'' mockUpdateDto ''tenant-123'' mockWorld))
     = [mockStudent\<lparr>s_firstName := ''Julie''\<rparr>]
   \<and> s_tenantId (mockStudent\<lparr>s_firstName := ''Julie''\<rparr>) = ''tenant-123''
   \<and> s_userId (mockStudent\<lparr>s_firstName := ''Julie''\<rparr>) = ''user-456''
   \<and> s_minutesUsed (mockStudent\<lparr>s_firstName := ''Julie''\<rparr>) = 300"
proof -
  have ap: "apply_data (studentData mockUpdateDto) mockStudent
              = mockStudent\<lparr>s_firstName := ''Julie''\<rparr>"
    by (simp add: apply_data_def studentData_def mockUpdateDto_def)
  have f: "findOne ''student-789'' ''tenant-123'' mockWorld
             = Inr (include_user (w_users mockWorld) mockStudent)"
    by (simp add: findOne_def findOne_where_def student_findUnique_by_id mockWorld_def
        mockStudent_def)
  have e: "update_email ''student-789'' mockUpdateDto mockWorld = (Inr (), mockWorld)"
    by (simp add: update_email_def mockUpdateDto_def)
  have n: "check_neph ''student-789'' mockUpdateDto mockWorld = Inr ()"
    by (simp add: check_neph_def mockUpdateDto_def)
  have i: "s_id mockStudent = ''student-789''"
    by (simp add: mockStudent_def)
  have su: "student_update (by_id ''student-789'') (studentData mockUpdateDto)
              (w_students mockWorld)
          = Inr (mockStudent\<lparr>s_firstName := ''Julie''\<rparr>, [mockStudent\<lparr>s_firstName := ''Julie''\<rparr>])"
    using i by (simp add: student_update_def student_findUnique_by_id student_matches_by_id ap
        mockWorld_def)
  have h: "update ''student-789'' mockUpdateDto ''tenant-123'' mockWorld
             = (Inr (include_user (w_users mockWorld) (mockStudent\<lparr>s_firstName := ''Julie''\<rparr>)),
                mockWorld\<lparr>w_students := [mockStudent\<lparr>s_firstName := ''Julie''\<rparr>]\<rparr>)"
    by (simp add: update_def f e n su)
  show ?thesis
    using h update_keeps_tenant_user_minutesUsed [OF h]
    by (simp add: mockStudent_def)
qed

section \<open>The guard chain\<close>

text \<open>
  The guards that ran are an initial segment of the guards declared: they run in the
  order written, and none runs after the first that fails. When the chain lets the
  request through, all of them ran.
\<close>

lemma tryActivate_trace_prefix: "\<exists>rest. gs = snd (tryActivate verify us gs c) @ rest"
proof (induction gs arbitrary: c)
  case Nil
  then show ?case by simp
next
  case (Cons g gs)
  show ?case
  proof (cases "canActivate verify us g c")
    case (Inl e)
    then show ?thesis by simp
  next
    case (Inr p)
    obtain b c' where p: "p = (b, c')" by (cases p)
    show ?thesis
    proof (cases b)
      case True
      obtain r trace where t: "tryActivate verify us gs c' = (r, trace)"
        by (cases "tryActivate verify us gs c'")
      from Cons.IH [of c'] t obtain rest where "gs = trace @ rest" by auto
      with Inr p True t show ?thesis by simp
    next
      case False
      with Inr p show ?thesis by simp
    qed
  qed
qed

lemma tryActivate_trace_subset: "set (snd (tryActivate verify us gs c)) \<subseteq> set gs"
proof -
  obtain rest where "gs = snd (tryActivate verify us gs c) @ rest"
    using tryActivate_trace_prefix by blast
  then have "set gs = set (snd (tryActivate verify us gs c)) \<union> set rest"
    by (metis set_append)
  then show ?thesis by blast
qed

lemma tryActivate_success_ran_all:
  "fst (tryActivate verify us gs c) = Inr c' \<Longrightarrow> snd (tryActivate verify us gs c) = gs"
proof (induction gs arbitrary: c)
  case Nil
  then show ?case by simp
next
  case (Cons g gs)
  from Cons.prems obtain c1 where g: "canActivate verify us g c = Inr (True, c1)"
    by (auto split: sum.splits prod.splits bool.splits)
  obtain r trace where t: "tryActivate verify us gs c1 = (r, trace)"
    by (cases "tryActivate verify us gs c1")
  with Cons.prems g have "r = Inr c'" by simp
  with Cons.IH [of c1] t have "trace = gs" by simp
  with g t show ?case by simp
qed

lemma StudentsController_never_runs_TenantGuard:
  "TenantGuard \<notin> set (snd (StudentsController_guard_chain verify us route req))"
  using tryActivate_trace_subset [of verify us StudentsController_guards
      "StudentsController_context route req"]
  by (auto simp: StudentsController_guard_chain_def StudentsController_guards_def)

text \<open>
  C8. The claim: every guarded operation passes authentication, then the tenant-scope
  check, then the role check. The chain declared on \<open>StudentsController\<close> has no
  \<open>TenantGuard\<close>: an administrator whose account has the empty tenant identifier gets
  through \<open>GET /students/:id\<close> with only \<open>JwtAuthGuard\<close> and \<open>RolesGuard\<close> run, where the
  chain of \<open>TenantGuard\<close>'s own documentation refuses the request; so it is for an
  ordinary administrator, whose request is never tenant-checked.
\<close>

theorem StudentsController_chain_without_tenant_stage:
  "StudentsController_guard_chain (mockVerify ''admin-000'') [tenantlessAdmin] Route_findOne mockRequest
     = (Inr (StudentsController_context Route_findOne
               (mockRequest\<lparr>req_user := Some \<lparr>cu_userId = ''admin-000'', cu_email = ''root@test.fr'',
                                               cu_tenantId = [], cu_role = ADMIN\<rparr>\<rparr>)),
        [JwtAuthGuard, RolesGuard])
   \<and> fst (tryActivate (mockVerify ''admin-000'') [tenantlessAdmin]
            [JwtAuthGuard, TenantGuard, RolesGuard]
            (StudentsController_context Route_findOne mockRequest))
     = Inl (ForbiddenException ''Forbidden resource'')
   \<and> snd (StudentsController_guard_chain (mockVerify ''actor-999'') (w_users mockWorld)
            Route_findOne mockRequest)
     = [JwtAuthGuard, RolesGuard]"
  by (simp add: StudentsController_guard_chain_def StudentsController_guards_def
      StudentsController_context_def StudentsController_class_roles_def
      JwtAuthGuard_canActivate_def mockVerify_def mockRequest_def validate_def validateUser_def
      user_findUnique_id_def tenantlessAdmin_def RolesGuard_canActivate_def
      TenantGuard_canActivate_def truthy_def mockWorld_def mockStudentUser_def mockActor_def)

end
